theory Spec2Isabelle
  imports Main
begin

section \<open>Identifiers, time and errors\<close>

text \<open>
  An \<open>ObjectId\<close> is an opaque identifier; the code only compares two of them through
  their \<open>toString()\<close>, which is injective, so equality of identifiers is equality here.
  A \<open>Date\<close> is its time value in milliseconds (valid dates only); \<open>new Date()\<close> is the
  parameter \<open>now\<close> of the operation that evaluates it.
\<close>

type_synonym ObjectId = nat
type_synonym Date = int

text \<open>
  The error classes of \<open>concepts/errors.ts\<close> and the subclasses declared by the concepts.
  \<open>AssertionError\<close> is what Node's \<open>assert\<close> throws on a falsy argument. The message
  strings are left out; the constructor arguments kept on the error object are kept.
\<close>

datatype error =
    NotFoundError
  | NotAllowedError
  | BadValuesError
  | AssertionError
  | UserNotSenderError ObjectId ObjectId
  | UserNotMatchError ObjectId ObjectId
  | NotADraftError ObjectId
  | MessageNotSentError ObjectId
  | ItemCreatorNotMatchError ObjectId ObjectId
  | InvalidStatusError string
  | GoalExecutorNotMatchError ObjectId ObjectId
  | UserProfileExistsError ObjectId
  | ProfileDoesNotExistsError ObjectId

text \<open>\<open>e instanceof NotAllowedError\<close>: the class itself and every class that extends it.\<close>

fun is_NotAllowed :: "error \<Rightarrow> bool" where
  "is_NotAllowed NotAllowedError = True"
| "is_NotAllowed (UserNotSenderError u i) = True"
| "is_NotAllowed (UserNotMatchError u i) = True"
| "is_NotAllowed (NotADraftError i) = True"
| "is_NotAllowed (MessageNotSentError i) = True"
| "is_NotAllowed (ItemCreatorNotMatchError u i) = True"
| "is_NotAllowed (InvalidStatusError s) = True"
| "is_NotAllowed (GoalExecutorNotMatchError u i) = True"
| "is_NotAllowed (UserProfileExistsError u) = True"
| "is_NotAllowed (ProfileDoesNotExistsError u) = True"
| "is_NotAllowed NotFoundError = False"
| "is_NotAllowed BadValuesError = False"
| "is_NotAllowed AssertionError = False"

section \<open>The document store\<close>

text \<open>
  Every stored record extends \<open>BaseDoc\<close>: the identifier and the two timestamps, all
  three assigned by the store. An optional field of the source (\<open>f?: T\<close>) is a
  \<open>T option\<close>: \<open>None\<close> stands for a field that is absent, \<open>undefined\<close> or \<open>null\<close>.
\<close>

record BaseDoc =
  oid :: ObjectId
  dateCreated :: Date
  dateUpdated :: Date

text \<open>
  A collection is the list of its documents in insertion order, and the supply of
  identifiers not yet handed out.
\<close>

record 'd DocCollection =
  docs :: "'d list"
  next_oid :: ObjectId

definition empty_collection :: "'d DocCollection" where
  "empty_collection = \<lparr>docs = [], next_oid = 0\<rparr>"

text \<open>
  Modelled from the spec: \<open>DocCollection.createOne\<close> of \<open>framework/doc.ts\<close>, which is not
  among the sources. The store inserts the given fields as a new record, assigns it an
  identifier that no other record has and both timestamps, and returns the identifier.
\<close>

definition createOne ::
  "Date \<Rightarrow> 'z BaseDoc_scheme \<Rightarrow> 'z BaseDoc_scheme DocCollection
     \<Rightarrow> ObjectId \<times> 'z BaseDoc_scheme DocCollection" where
  "createOne now item c =
     (next_oid c,
      c\<lparr>docs := docs c @ [item\<lparr>oid := next_oid c, dateCreated := now, dateUpdated := now\<rparr>],
        next_oid := Suc (next_oid c)\<rparr>)"

text \<open>
  Modelled from the spec: \<open>DocCollection.readOne\<close>, the first record that satisfies the
  filter, or nothing (\<open>null\<close>) when there is none. It never throws.
\<close>

definition readOne :: "('d \<Rightarrow> bool) \<Rightarrow> 'd DocCollection \<Rightarrow> 'd option" where
  "readOne flt c = find flt (docs c)"

text \<open>Modelled from the spec: \<open>DocCollection.readMany\<close>, every record that satisfies the filter.\<close>

definition readMany :: "('d \<Rightarrow> bool) \<Rightarrow> 'd DocCollection \<Rightarrow> 'd list" where
  "readMany flt c = filter flt (docs c)"

fun update_first :: "('d \<Rightarrow> bool) \<Rightarrow> ('d \<Rightarrow> 'd) \<Rightarrow> 'd list \<Rightarrow> 'd list" where
  "update_first flt f [] = []"
| "update_first flt f (d # ds) = (if flt d then f d # ds else d # update_first flt f ds)"

fun delete_first :: "('d \<Rightarrow> bool) \<Rightarrow> 'd list \<Rightarrow> 'd list" where
  "delete_first flt [] = []"
| "delete_first flt (d # ds) = (if flt d then ds else d # delete_first flt ds)"

text \<open>
  Modelled from the spec: \<open>DocCollection.partialUpdateOne\<close>. The first record that
  satisfies the filter gets the given fields written (the function \<open>upd\<close>; a field given as
  \<open>undefined\<close> is cleared) and its update timestamp set by the store; the other fields and
  the other records stay. With no matching record nothing changes.
\<close>

definition partialUpdateOne ::
  "Date \<Rightarrow> ('z BaseDoc_scheme \<Rightarrow> bool) \<Rightarrow> ('z BaseDoc_scheme \<Rightarrow> 'z BaseDoc_scheme)
     \<Rightarrow> 'z BaseDoc_scheme DocCollection \<Rightarrow> 'z BaseDoc_scheme DocCollection" where
  "partialUpdateOne now flt upd c =
     c\<lparr>docs := update_first flt (\<lambda>d. (upd d)\<lparr>dateUpdated := now\<rparr>) (docs c)\<rparr>"

text \<open>
  Modelled from the spec: \<open>DocCollection.deleteOne\<close>, delete-by-filter. The first record
  that satisfies the filter is removed; no error when there is none.
\<close>

definition deleteOne :: "('d \<Rightarrow> bool) \<Rightarrow> 'd DocCollection \<Rightarrow> 'd DocCollection" where
  "deleteOne flt c = c\<lparr>docs := delete_first flt (docs c)\<rparr>"

text \<open>The filter \<open>{ _id }\<close>.\<close>

definition by_id :: "ObjectId \<Rightarrow> 'z BaseDoc_scheme \<Rightarrow> bool" where
  "by_id i d = (oid d = i)"

text \<open>
  Identifiers come from the supply: every stored identifier has been handed out already,
  so the next one is new. The empty collection is of this kind, and \<open>createOne\<close>,
  \<open>deleteOne\<close> and \<open>partialUpdateOne\<close> (whose written fields never include the identifier)
  keep a collection so.
\<close>

definition fresh_ids :: "'z BaseDoc_scheme DocCollection \<Rightarrow> bool" where
  "fresh_ids c = list_all (\<lambda>d. oid d < next_oid c) (docs c)"

section \<open>Messaging\<close>

record MessageDoc = BaseDoc +
  msg_from :: ObjectId
  msg_to :: ObjectId
  message :: string
  attachment :: "ObjectId option"
  draft :: "bool option"
  timeDrafted :: "Date option"
  sent :: "bool option"
  timeSent :: "Date option"
  receivedMessageID :: "ObjectId option"
  received :: "bool option"
  timeReceived :: "Date option"
  sentMessageID :: "ObjectId option"

type_synonym messages = "MessageDoc DocCollection"

text \<open>
  The argument of \<open>createOne\<close>: the fields the caller lists; the ones it does not list are
  absent. The three fields of \<open>BaseDoc\<close> are placeholders that the store overwrites.
\<close>

definition new_message :: "ObjectId \<Rightarrow> ObjectId \<Rightarrow> string \<Rightarrow> ObjectId option \<Rightarrow> MessageDoc" where
  "new_message f t m a =
     \<lparr>oid = 0, dateCreated = 0, dateUpdated = 0,
      msg_from = f, msg_to = t, message = m, attachment = a,
      draft = None, timeDrafted = None,
      sent = None, timeSent = None, receivedMessageID = None,
      received = None, timeReceived = None, sentMessageID = None\<rparr>"

text \<open>
  Every operation takes the collection and returns its result with the collection it
  leaves; a thrown error is \<open>Inl\<close>. In each operation below every \<open>throw\<close> comes before the
  first write, so an error leaves the collection as it was. The constant \<open>msg\<close> string of
  a result object is left out.
\<close>

definition Messaging_draft ::
  "Date \<Rightarrow> ObjectId \<Rightarrow> ObjectId \<Rightarrow> string \<Rightarrow> ObjectId option \<Rightarrow> messages
     \<Rightarrow> MessageDoc option \<times> messages" where
  "Messaging_draft now f t m a c =
     (let (i, c1) = createOne now ((new_message f t m a)\<lparr>timeDrafted := Some now, draft := Some True\<rparr>) c
      in (readOne (by_id i) c1, c1))"

definition Messaging_readDrafts :: "ObjectId \<Rightarrow> messages \<Rightarrow> MessageDoc list" where
  "Messaging_readDrafts f c = readMany (\<lambda>d. msg_from d = f \<and> draft d = Some True) c"

definition Messaging_editDraft ::
  "Date \<Rightarrow> ObjectId \<Rightarrow> string option \<Rightarrow> ObjectId option \<Rightarrow> ObjectId option \<Rightarrow> messages
     \<Rightarrow> error + (MessageDoc option \<times> messages)" where
  "Messaging_editDraft now i m t a c =
     (case readOne (by_id i) c of
        None \<Rightarrow> Inl AssertionError
      | Some messageObj \<Rightarrow>
          let updatedMessage = (case m of Some x \<Rightarrow> x | None \<Rightarrow> message messageObj);
              updatedContact = (case t of Some x \<Rightarrow> x | None \<Rightarrow> msg_to messageObj);
              updatedAttachment = (case a of Some x \<Rightarrow> Some x | None \<Rightarrow> attachment messageObj);
              c1 = partialUpdateOne now (by_id i)
                     (\<lambda>d. d\<lparr>message := updatedMessage, msg_to := updatedContact,
                             attachment := updatedAttachment\<rparr>) c
          in Inr (readOne (by_id i) c1, c1))"

definition Messaging_deleteDraft :: "ObjectId \<Rightarrow> ObjectId \<Rightarrow> messages \<Rightarrow> messages" where
  "Messaging_deleteDraft user i c = deleteOne (by_id i) c"

definition Messaging_send ::
  "Date \<Rightarrow> ObjectId \<Rightarrow> ObjectId \<Rightarrow> ObjectId \<Rightarrow> messages
     \<Rightarrow> error + (MessageDoc option \<times> messages)" where
  "Messaging_send now i f t c =
     (case readOne (by_id i) c of
        None \<Rightarrow> Inl AssertionError
      | Some messageObj \<Rightarrow>
          let currentTime = now;
              (receivedMessageID', c1) =
                 createOne now
                   ((new_message f t (message messageObj) (attachment messageObj))
                      \<lparr>received := Some True, timeReceived := Some currentTime,
                       sentMessageID := Some i\<rparr>) c;
              c2 = partialUpdateOne now (by_id i)
                     (\<lambda>d. d\<lparr>draft := None, timeDrafted := None, sent := Some True,
                             timeSent := Some currentTime,
                             receivedMessageID := Some receivedMessageID'\<rparr>) c1
          in Inr (readOne (by_id i) c2, c2))"

definition Messaging_readSent :: "ObjectId \<Rightarrow> ObjectId \<Rightarrow> messages \<Rightarrow> MessageDoc list" where
  "Messaging_readSent f t c = readMany (\<lambda>d. msg_from d = f \<and> msg_to d = t \<and> sent d = Some True) c"

definition Messaging_readReceived :: "ObjectId \<Rightarrow> ObjectId \<Rightarrow> messages \<Rightarrow> MessageDoc list" where
  "Messaging_readReceived t f c =
     readMany (\<lambda>d. msg_from d = f \<and> msg_to d = t \<and> received d = Some True) c"

definition Messaging_editSent ::
  "Date \<Rightarrow> ObjectId \<Rightarrow> string option \<Rightarrow> ObjectId option \<Rightarrow> messages
     \<Rightarrow> error + (MessageDoc option \<times> messages)" where
  "Messaging_editSent now i m a c =
     (case readOne (by_id i) c of
        None \<Rightarrow> Inl AssertionError
      | Some messageObj \<Rightarrow>
          let updatedMessage = (case m of Some x \<Rightarrow> x | None \<Rightarrow> message messageObj);
              updatedAttachment = (case a of Some x \<Rightarrow> Some x | None \<Rightarrow> attachment messageObj);
              c1 = partialUpdateOne now (by_id i)
                     (\<lambda>d. d\<lparr>message := updatedMessage, attachment := updatedAttachment\<rparr>) c;
              c2 = partialUpdateOne now (\<lambda>d. Some (oid d) = receivedMessageID messageObj)
                     (\<lambda>d. d\<lparr>message := updatedMessage, attachment := updatedAttachment\<rparr>) c1
          in Inr (readOne (by_id i) c2, c2))"

definition Messaging_read :: "ObjectId \<Rightarrow> ObjectId \<Rightarrow> messages \<Rightarrow> MessageDoc option" where
  "Messaging_read user i c = readOne (by_id i) c"

definition assertUserIsSender :: "ObjectId \<Rightarrow> ObjectId \<Rightarrow> messages \<Rightarrow> error + unit" where
  "assertUserIsSender user i c =
     (case readOne (by_id i) c of
        None \<Rightarrow> Inl NotFoundError
      | Some m \<Rightarrow> if msg_from m \<noteq> user then Inl (UserNotSenderError user i) else Inr ())"

definition assertSenderOrReceiver :: "ObjectId \<Rightarrow> ObjectId \<Rightarrow> messages \<Rightarrow> error + unit" where
  "assertSenderOrReceiver user i c =
     (case readOne (by_id i) c of
        None \<Rightarrow> Inl NotFoundError
      | Some m \<Rightarrow>
          if msg_from m \<noteq> user \<and> msg_to m = user then Inl (UserNotMatchError user i)
          else Inr ())"

definition Messaging_deleteSent :: "ObjectId \<Rightarrow> ObjectId \<Rightarrow> messages \<Rightarrow> error + messages" where
  "Messaging_deleteSent user i c =
     (case assertUserIsSender user i c of
        Inl e \<Rightarrow> Inl e
      | Inr _ \<Rightarrow>
          (case (case readOne (by_id i) c of None \<Rightarrow> None | Some m \<Rightarrow> receivedMessageID m) of
             None \<Rightarrow> Inl AssertionError
           | Some receiverMessageID \<Rightarrow>
               let c1 = deleteOne (by_id i) c;
                   c2 = deleteOne (\<lambda>d. receivedMessageID d = Some receiverMessageID) c1
               in Inr c2))"

text \<open>
  The routes of \<open>routes.ts\<close> that compose the messaging operations. \<open>user\<close> is what
  \<open>Sessioning.getUser(session)\<close> returned (the session is logged in) and the message id
  is the \<open>ObjectId\<close> parsed from the request.
\<close>

definition sendMessage ::
  "Date \<Rightarrow> ObjectId \<Rightarrow> ObjectId \<Rightarrow> messages \<Rightarrow> error + (MessageDoc option \<times> messages)" where
  "sendMessage now userID messageID c =
     (case Messaging_read userID messageID c of
        None \<Rightarrow> Inl NotAllowedError
      | Some messageObj \<Rightarrow>
          (case assertUserIsSender userID messageID c of
             Inl e \<Rightarrow> Inl e
           | Inr _ \<Rightarrow>
               if draft messageObj \<noteq> Some True then Inl (NotADraftError messageID)
               else Messaging_send now messageID userID (msg_to messageObj) c))"

text \<open>
  \<open>contact\<close> is the request's optional contact, a well-formed identifier string when
  given. On the draft path the route builds \<open>new ObjectId(contact)\<close>, which for an omitted
  contact is a newly generated identifier: the parameter \<open>generated\<close>.
\<close>

definition editMessage ::
  "Date \<Rightarrow> ObjectId \<Rightarrow> ObjectId \<Rightarrow> ObjectId \<Rightarrow> ObjectId option \<Rightarrow> string option \<Rightarrow> messages
     \<Rightarrow> error + (MessageDoc option \<times> messages)" where
  "editMessage now generated userID messageID contact m c =
     (case Messaging_read userID messageID c of
        None \<Rightarrow> Inl NotFoundError
      | Some messageObj \<Rightarrow>
          (case assertUserIsSender userID messageID c of
             Inl e \<Rightarrow> Inl e
           | Inr _ \<Rightarrow>
               let isSent = (sent messageObj = Some True) in
               if isSent \<and> contact \<noteq> None then Inl NotAllowedError
               else if isSent then Messaging_editSent now messageID m None c
               else
                 let contactID = (case contact of Some x \<Rightarrow> x | None \<Rightarrow> generated)
                 in Messaging_editDraft now messageID m (Some contactID) None c))"

definition deleteMessage :: "ObjectId \<Rightarrow> ObjectId \<Rightarrow> messages \<Rightarrow> error + messages" where
  "deleteMessage userID messageID c =
     (case assertSenderOrReceiver userID messageID c of
        Inl e \<Rightarrow> Inl e
      | Inr _ \<Rightarrow>
          (case Messaging_read userID messageID c of
             None \<Rightarrow> Inl NotFoundError
           | Some messageObj \<Rightarrow>
               (case assertUserIsSender userID messageID c of
                  Inl e \<Rightarrow> Inl e
                | Inr _ \<Rightarrow>
                    if sent messageObj = Some True then Messaging_deleteSent userID messageID c
                    else Inr (Messaging_deleteDraft userID messageID c))))"

section \<open>Itemizing\<close>

definition STATUS_TYPES :: "string list" where
  "STATUS_TYPES = [''complete'', ''in-progress'']"

record ItemDoc = BaseDoc +
  creator :: ObjectId
  item_title :: string
  item_description :: string
  item_status :: "string option"

type_synonym items = "ItemDoc DocCollection"

definition Itemizing_create ::
  "Date \<Rightarrow> ObjectId \<Rightarrow> string \<Rightarrow> string \<Rightarrow> string option \<Rightarrow> items \<Rightarrow> ItemDoc option \<times> items" where
  "Itemizing_create now cr t d st c =
     (let (i, c1) = createOne now
                      \<lparr>oid = 0, dateCreated = 0, dateUpdated = 0,
                       creator = cr, item_title = t, item_description = d, item_status = st\<rparr> c
      in (readOne (by_id i) c1, c1))"

definition Itemizing_getByCreator :: "ObjectId \<Rightarrow> items \<Rightarrow> ItemDoc list" where
  "Itemizing_getByCreator cr c = readMany (\<lambda>d. creator d = cr) c"

definition Itemizing_update ::
  "Date \<Rightarrow> ObjectId \<Rightarrow> string option \<Rightarrow> string option \<Rightarrow> string option \<Rightarrow> items
     \<Rightarrow> error + (ItemDoc option \<times> items)" where
  "Itemizing_update now i t d st c =
     (case readOne (by_id i) c of
        None \<Rightarrow> Inl AssertionError
      | Some item \<Rightarrow>
          let title' = (case t of None \<Rightarrow> item_title item | Some x \<Rightarrow> x);
              description' = (case d of None \<Rightarrow> item_description item | Some x \<Rightarrow> x);
              status' = (case st of None \<Rightarrow> item_status item | Some x \<Rightarrow> Some x);
              c1 = partialUpdateOne now (by_id i)
                     (\<lambda>r. r\<lparr>item_title := title', item_description := description',
                             item_status := status'\<rparr>) c
          in Inr (readOne (by_id i) c1, c1))"

definition Itemizing_delete :: "ObjectId \<Rightarrow> items \<Rightarrow> items" where
  "Itemizing_delete i c = deleteOne (by_id i) c"

definition assertCreatorIsUser :: "ObjectId \<Rightarrow> ObjectId \<Rightarrow> items \<Rightarrow> error + unit" where
  "assertCreatorIsUser i user c =
     (case readOne (by_id i) c of
        None \<Rightarrow> Inl NotFoundError
      | Some item \<Rightarrow>
          if creator item \<noteq> user then Inl (ItemCreatorNotMatchError user i) else Inr ())"

text \<open>
  \<open>status && !STATUS_TYPES.includes(status)\<close>: \<open>undefined\<close> and the empty string are the
  falsy values of \<open>string | undefined\<close>.
\<close>

definition assertValidStatus :: "string option \<Rightarrow> error + unit" where
  "assertValidStatus status =
     (case status of
        None \<Rightarrow> Inr ()
      | Some s \<Rightarrow>
          if s \<noteq> [] \<and> s \<notin> set STATUS_TYPES then Inl (InvalidStatusError s)
          else Inr ())"

definition assertValidItemDetails :: "string \<Rightarrow> string \<Rightarrow> error + unit" where
  "assertValidItemDetails t d = (if t = [] \<or> d = [] then Inl BadValuesError else Inr ())"

text \<open>The route \<open>PATCH /tasks/:id\<close>.\<close>

definition updateTask ::
  "Date \<Rightarrow> ObjectId \<Rightarrow> ObjectId \<Rightarrow> string option \<Rightarrow> string option \<Rightarrow> string option \<Rightarrow> items
     \<Rightarrow> error + (ItemDoc option \<times> items)" where
  "updateTask now user i t d st c =
     (case assertCreatorIsUser i user c of
        Inl e \<Rightarrow> Inl e
      | Inr _ \<Rightarrow>
          (case assertValidStatus st of
             Inl e \<Rightarrow> Inl e
           | Inr _ \<Rightarrow> Itemizing_update now i t d st c))"

section \<open>Tracking\<close>

definition GOAL_TYPES :: "string list" where
  "GOAL_TYPES = [''complete'', ''pending'', ''past due'']"

record GoalDoc = BaseDoc +
  executor :: ObjectId
  goal_title :: string
  goal_description :: "string option"
  goal_status :: string
  due :: Date

type_synonym goals = "GoalDoc DocCollection"

definition Tracking_create ::
  "Date \<Rightarrow> ObjectId \<Rightarrow> string \<Rightarrow> Date \<Rightarrow> string option \<Rightarrow> goals \<Rightarrow> GoalDoc option \<times> goals" where
  "Tracking_create now ex t du de c =
     (let currentDate = now;
          status = (if du < currentDate then ''past due'' else ''pending'');
          (i, c1) = createOne now
                      \<lparr>oid = 0, dateCreated = 0, dateUpdated = 0,
                       executor = ex, goal_title = t, goal_description = de,
                       goal_status = status, due = du\<rparr> c
      in (readOne (by_id i) c1, c1))"

definition Tracking_viewGoals :: "ObjectId \<Rightarrow> goals \<Rightarrow> GoalDoc list" where
  "Tracking_viewGoals ex c = readMany (\<lambda>d. executor d = ex) c"

definition Tracking_viewStatus :: "ObjectId \<Rightarrow> string \<Rightarrow> goals \<Rightarrow> GoalDoc list" where
  "Tracking_viewStatus ex st c = readMany (\<lambda>d. executor d = ex \<and> goal_status d = st) c"

definition Tracking_viewOneGoal :: "ObjectId \<Rightarrow> goals \<Rightarrow> GoalDoc option" where
  "Tracking_viewOneGoal i c = readOne (by_id i) c"

definition Tracking_edit ::
  "Date \<Rightarrow> ObjectId \<Rightarrow> string option \<Rightarrow> string option \<Rightarrow> string option \<Rightarrow> Date option \<Rightarrow> goals
     \<Rightarrow> error + (GoalDoc option \<times> goals)" where
  "Tracking_edit now i t de st du c =
     (case readOne (by_id i) c of
        None \<Rightarrow> Inl NotFoundError
      | Some goal \<Rightarrow>
          let title' = (case t of None \<Rightarrow> goal_title goal | Some x \<Rightarrow> x);
              description' = (case de of None \<Rightarrow> goal_description goal | Some x \<Rightarrow> Some x);
              status' = (case st of None \<Rightarrow> goal_status goal | Some x \<Rightarrow> x);
              due' = (case du of None \<Rightarrow> due goal | Some x \<Rightarrow> x);
              c1 = partialUpdateOne now (by_id i)
                     (\<lambda>r. r\<lparr>goal_title := title', goal_description := description',
                             goal_status := status', due := due'\<rparr>) c
          in Inr (readOne (by_id i) c1, c1))"

definition Tracking_delete :: "ObjectId \<Rightarrow> goals \<Rightarrow> goals" where
  "Tracking_delete i c = deleteOne (by_id i) c"

definition assertExecutorIsUser :: "ObjectId \<Rightarrow> ObjectId \<Rightarrow> goals \<Rightarrow> error + unit" where
  "assertExecutorIsUser i user c =
     (case readOne (by_id i) c of
        None \<Rightarrow> Inl NotFoundError
      | Some goal \<Rightarrow>
          if executor goal \<noteq> user then Inl (GoalExecutorNotMatchError user i) else Inr ())"

text \<open>
  The loop of \<open>updateGoalStatuses\<close> over the goals read before it starts: each goal whose
  due date has passed is updated on its own, by its identifier.
\<close>

fun sweep :: "Date \<Rightarrow> GoalDoc list \<Rightarrow> goals \<Rightarrow> goals" where
  "sweep currentDate [] c = c"
| "sweep currentDate (goal # rest) c =
     sweep currentDate rest
       (if due goal < currentDate
        then partialUpdateOne currentDate (by_id (oid goal)) (\<lambda>r. r\<lparr>goal_status := ''past due''\<rparr>) c
        else c)"

definition updateGoalStatuses :: "Date \<Rightarrow> goals \<Rightarrow> goals" where
  "updateGoalStatuses now c =
     (let currentDate = now;
          pendingGoals = readMany (\<lambda>d. goal_status d = ''pending'') c
      in sweep currentDate pendingGoals c)"

section \<open>Profiling\<close>

record ProfileDoc = BaseDoc +
  user :: ObjectId
  name :: string
  contact :: "string option"
  bio :: "string option"

type_synonym profiles = "ProfileDoc DocCollection"

definition Profiling_create ::
  "Date \<Rightarrow> ObjectId \<Rightarrow> string \<Rightarrow> string option \<Rightarrow> string option \<Rightarrow> profiles
     \<Rightarrow> ProfileDoc option \<times> profiles" where
  "Profiling_create now u n co b c =
     (let (i, c1) = createOne now
                      \<lparr>oid = 0, dateCreated = 0, dateUpdated = 0,
                       user = u, name = n, contact = co, bio = b\<rparr> c
      in (readOne (\<lambda>d. user d = u) c1, c1))"

definition viewProfile :: "ObjectId \<Rightarrow> profiles \<Rightarrow> ProfileDoc option" where
  "viewProfile u c = readOne (\<lambda>d. user d = u) c"

definition Profiling_update ::
  "Date \<Rightarrow> ObjectId \<Rightarrow> string option \<Rightarrow> string option \<Rightarrow> string option \<Rightarrow> profiles
     \<Rightarrow> error + (ProfileDoc option \<times> profiles)" where
  "Profiling_update now u n co b c =
     (case viewProfile u c of
        None \<Rightarrow> Inl AssertionError
      | Some userProfile \<Rightarrow>
          let name' = (case n of None \<Rightarrow> name userProfile | Some x \<Rightarrow> x);
              contact' = (case co of None \<Rightarrow> contact userProfile | Some x \<Rightarrow> Some x);
              bio' = (case b of None \<Rightarrow> bio userProfile | Some x \<Rightarrow> Some x);
              c1 = partialUpdateOne now (\<lambda>d. user d = u)
                     (\<lambda>r. r\<lparr>name := name', contact := contact', bio := bio'\<rparr>) c
          in Inr (readOne (\<lambda>d. user d = u) c1, c1))"

definition Profiling_delete :: "ObjectId \<Rightarrow> profiles \<Rightarrow> profiles" where
  "Profiling_delete u c = deleteOne (\<lambda>d. user d = u) c"

definition assertProfileExists :: "ObjectId \<Rightarrow> profiles \<Rightarrow> error + unit" where
  "assertProfileExists u c =
     (case readOne (\<lambda>d. user d = u) c of
        None \<Rightarrow> Inl (ProfileDoesNotExistsError u)
      | Some profile \<Rightarrow> Inr ())"

definition assertProfileDoesNotExist :: "ObjectId \<Rightarrow> profiles \<Rightarrow> error + unit" where
  "assertProfileDoesNotExist u c =
     (case readOne (\<lambda>d. user d = u) c of
        Some profile \<Rightarrow> Inl (UserProfileExistsError u)
      | None \<Rightarrow> Inr ())"

text \<open>
  The profile routes; \<open>u\<close> is the user of the logged-in session.
\<close>

definition createProfile ::
  "Date \<Rightarrow> ObjectId \<Rightarrow> string \<Rightarrow> string option \<Rightarrow> string option \<Rightarrow> profiles
     \<Rightarrow> error + (ProfileDoc option \<times> profiles)" where
  "createProfile now u n co b c =
     (case assertProfileDoesNotExist u c of
        Inl e \<Rightarrow> Inl e
      | Inr _ \<Rightarrow> Inr (Profiling_create now u n co b c))"

definition deleteProfile :: "ObjectId \<Rightarrow> profiles \<Rightarrow> error + profiles" where
  "deleteProfile u c =
     (case assertProfileExists u c of
        Inl e \<Rightarrow> Inl e
      | Inr _ \<Rightarrow> Inr (Profiling_delete u c))"

definition updateProfile ::
  "Date \<Rightarrow> ObjectId \<Rightarrow> string option \<Rightarrow> string option \<Rightarrow> string option \<Rightarrow> profiles
     \<Rightarrow> error + (ProfileDoc option \<times> profiles)" where
  "updateProfile now u n co b c =
     (case assertProfileExists u c of
        Inl e \<Rightarrow> Inl e
      | Inr _ \<Rightarrow> Profiling_update now u n co b c)"

text \<open>
  The collections that the profile routes can produce from the empty one, one request
  after the other.
\<close>

inductive reachable :: "profiles \<Rightarrow> bool" where
  reach_empty: "reachable empty_collection"
| reach_create: "reachable c \<Longrightarrow> createProfile now u n co b c = Inr (p, c') \<Longrightarrow> reachable c'"
| reach_delete: "reachable c \<Longrightarrow> deleteProfile u c = Inr c' \<Longrightarrow> reachable c'"
| reach_update: "reachable c \<Longrightarrow> updateProfile now u n co b c = Inr (p, c') \<Longrightarrow> reachable c'"

definition profiles_of :: "ObjectId \<Rightarrow> profiles \<Rightarrow> ProfileDoc list" where
  "profiles_of u c = filter (\<lambda>d. user d = u) (docs c)"

section \<open>Example collections\<close>

text \<open>
  The message collection after user 10 drafted \<open>''hi''\<close> for user 20 and sent it, starting
  from the empty collection: the sender's copy and the recipient's copy.
\<close>

definition example_sent :: MessageDoc where
  "example_sent =
     \<lparr>oid = 0, dateCreated = 5, dateUpdated = 7,
      msg_from = 10, msg_to = 20, message = ''hi'', attachment = None,
      draft = None, timeDrafted = None,
      sent = Some True, timeSent = Some 7, receivedMessageID = Some 1,
      received = None, timeReceived = None, sentMessageID = None\<rparr>"

definition example_received :: MessageDoc where
  "example_received =
     \<lparr>oid = 1, dateCreated = 7, dateUpdated = 7,
      msg_from = 10, msg_to = 20, message = ''hi'', attachment = None,
      draft = None, timeDrafted = None,
      sent = None, timeSent = None, receivedMessageID = None,
      received = Some True, timeReceived = Some 7, sentMessageID = Some 0\<rparr>"

definition example_messages :: messages where
  "example_messages = \<lparr>docs = [example_sent, example_received], next_oid = 2\<rparr>"

text \<open>
  An item, a goal and a profile of user 10, each the only record of its collection.
\<close>

definition example_item :: ItemDoc where
  "example_item =
     \<lparr>oid = 0, dateCreated = 5, dateUpdated = 5,
      creator = 10, item_title = ''task'', item_description = ''to do'',
      item_status = Some ''in-progress''\<rparr>"

definition example_items :: items where
  "example_items = \<lparr>docs = [example_item], next_oid = 1\<rparr>"

definition example_goal :: GoalDoc where
  "example_goal =
     \<lparr>oid = 0, dateCreated = 5, dateUpdated = 5,
      executor = 10, goal_title = ''goal'', goal_description = None,
      goal_status = ''pending'', due = 100\<rparr>"

definition example_goals :: goals where
  "example_goals = \<lparr>docs = [example_goal], next_oid = 1\<rparr>"

definition example_profile :: ProfileDoc where
  "example_profile =
     \<lparr>oid = 0, dateCreated = 5, dateUpdated = 5,
      user = 10, name = ''Ann'', contact = None, bio = None\<rparr>"

definition example_profiles :: profiles where
  "example_profiles = \<lparr>docs = [example_profile], next_oid = 1\<rparr>"

lemmas example_defs = example_messages_def example_sent_def example_received_def
  example_items_def example_item_def example_goals_def example_goal_def
  example_profiles_def example_profile_def

section \<open>Facts about the store\<close>

lemma find_append:
  "find P (xs @ ys) = (case find P xs of None \<Rightarrow> find P ys | Some x \<Rightarrow> Some x)"
  by (induction xs) auto

lemma find_none_append: "list_all (\<lambda>x. \<not> P x) xs \<Longrightarrow> find P (xs @ ys) = find P ys"
  by (induction xs) auto

lemma update_first_none_append:
  "list_all (\<lambda>x. \<not> P x) xs \<Longrightarrow> update_first P f (xs @ ys) = xs @ update_first P f ys"
  by (induction xs) auto

lemma fresh_ids_no_next: "fresh_ids c \<Longrightarrow> list_all (\<lambda>d. \<not> by_id (next_oid c) d) (docs c)"
  by (auto simp: fresh_ids_def by_id_def list_all_iff)

lemma fresh_ids_no_Suc_next: "fresh_ids c \<Longrightarrow> list_all (\<lambda>d. \<not> by_id (Suc (next_oid c)) d) (docs c)"
  by (auto simp: fresh_ids_def by_id_def list_all_iff)

lemma fresh_ids_empty: "fresh_ids empty_collection"
  by (simp add: fresh_ids_def empty_collection_def)

lemma fresh_ids_createOne: "fresh_ids c \<Longrightarrow> fresh_ids (snd (createOne now item c))"
  by (auto simp: fresh_ids_def createOne_def list_all_iff)

lemma set_delete_first: "set (delete_first P xs) \<subseteq> set xs"
  by (induction xs) auto

lemma fresh_ids_deleteOne: "fresh_ids c \<Longrightarrow> fresh_ids (deleteOne flt c)"
  using set_delete_first [of flt "docs c"] by (auto simp: fresh_ids_def deleteOne_def list_all_iff)

lemma list_all_update_first:
  assumes "list_all Q xs" and "\<forall>d. Q d \<longrightarrow> Q (f d)"
  shows "list_all Q (update_first P f xs)"
  using assms by (induction xs) auto

lemma fresh_ids_partialUpdateOne:
  assumes "fresh_ids c" and "\<And>d. oid (upd d) = oid d"
  shows "fresh_ids (partialUpdateOne now flt upd c)"
  using assms by (simp add: fresh_ids_def partialUpdateOne_def list_all_update_first)

lemma find_update_first_by_id:
  assumes "\<And>d. oid (f d) = oid d"
  shows "find (by_id j) (update_first (by_id i) f xs) =
           (if i = j then map_option f (find (by_id i) xs) else find (by_id j) xs)"
  using assms by (induction xs) (auto simp: by_id_def)

lemma readOne_partialUpdateOne_by_id:
  assumes "\<And>d. oid (upd d) = oid d"
  shows "readOne (by_id j) (partialUpdateOne now (by_id i) upd c) =
           (if i = j then map_option (\<lambda>d. (upd d)\<lparr>dateUpdated := now\<rparr>) (readOne (by_id i) c)
            else readOne (by_id j) c)"
  using assms by (simp add: readOne_def partialUpdateOne_def find_update_first_by_id)

lemma by_id_Some: "(\<lambda>d. oid d = r) = by_id r"
  by (auto simp: by_id_def)

lemma readOne_by_id_None: "(readOne (by_id i) c = None) = (i \<notin> oid ` set (docs c))"
  by (auto simp: readOne_def find_None_iff by_id_def)

lemma find_SomeD: "find P xs = Some d \<Longrightarrow> d \<in> set xs \<and> P d"
  by (induction xs) (auto split: if_splits)

lemma readOne_SomeD: "readOne flt c = Some d \<Longrightarrow> d \<in> set (docs c) \<and> flt d"
  unfolding readOne_def by (rule find_SomeD)

lemma find_update_first_same:
  assumes "\<forall>d. P d \<longrightarrow> P (f d)"
  shows "find P (update_first P f xs) = map_option f (find P xs)"
  using assms by (induction xs) auto

lemma find_update_first_other:
  assumes "\<forall>d. Q (f d) = Q d" and "\<forall>d. P d \<longrightarrow> \<not> Q d"
  shows "find Q (update_first P f xs) = find Q xs"
  using assms by (induction xs) auto

lemma map_update_first:
  assumes "\<And>d. g (f d) = g d"
  shows "map g (update_first P f xs) = map g xs"
  using assms by (induction xs) auto

lemma update_first_found_cong:
  "find P xs = Some x \<Longrightarrow> f x = g x \<Longrightarrow> update_first P f xs = update_first P g xs"
  by (induction xs) (auto split: if_splits)

lemma delete_first_none: "list_all (\<lambda>x. \<not> P x) xs \<Longrightarrow> delete_first P (xs @ [y]) = (if P y then xs else xs @ [y])"
  by (induction xs) auto

lemma find_None_filter: "(find P xs = None) = (filter P xs = [])"
  by (induction xs) auto

lemma find_None_list_all: "(find P xs = None) = list_all (\<lambda>x. \<not> P x) xs"
  by (induction xs) auto

lemma length_filter_delete_first:
  "length (filter Q (delete_first P xs)) \<le> length (filter Q xs)"
  by (induction xs) auto

lemma length_filter_update_first:
  assumes "\<forall>d. Q (f d) = Q d"
  shows "length (filter Q (update_first P f xs)) = length (filter Q xs)"
  using assms by (induction xs) auto

section \<open>Messaging: draft, send, edit, delete\<close>

text \<open>
  C1. For all users \<open>A\<close>, \<open>B\<close> and every text \<open>t\<close>, in a collection whose identifiers come
  from the supply: \<open>draft(A, B, t)\<close> returns the draft, and \<open>send\<close> on its id (with any
  sender and recipient arguments; the route passes \<open>A\<close> and the draft's \<open>to\<close>) leaves the
  collection with exactly two more records than before: the original one, now sent
  (\<open>sent\<close> true, \<open>draft\<close> and \<open>timeDrafted\<close> cleared), and a new one, received, with the
  same text, each holding the other's id.
\<close>

theorem draft_send_roundtrip:
  assumes "fresh_ids c"
  shows "\<exists>d c1 s r c2.
           Messaging_draft now A B t att c = (Some d, c1) \<and> draft d = Some True \<and>
           Messaging_send now' (oid d) sender recipient c1 = Inr (Some s, c2) \<and>
           sendMessage now' A (oid d) c1 = Messaging_send now' (oid d) A B c1 \<and>
           docs c2 = docs c @ [s, r] \<and>
           readOne (by_id (oid d)) c2 = Some s \<and> readOne (by_id (oid r)) c2 = Some r \<and>
           oid s = oid d \<and> oid r \<noteq> oid d \<and>
           sent s = Some True \<and> draft s = None \<and> timeDrafted s = None \<and> received s = None \<and>
           received r = Some True \<and> draft r = None \<and> sent r = None \<and>
           message s = t \<and> message r = t \<and>
           receivedMessageID s = Some (oid r) \<and> sentMessageID r = Some (oid s)"
proof -
  let ?n = "next_oid c"
  let ?d = "(new_message A B t att)\<lparr>oid := ?n, dateCreated := now, dateUpdated := now,
              timeDrafted := Some now, draft := Some True\<rparr>"
  let ?c1 = "c\<lparr>docs := docs c @ [?d], next_oid := Suc ?n\<rparr>"
  have no: "list_all (\<lambda>d. \<not> by_id ?n d) (docs c)"
    and no': "list_all (\<lambda>d. \<not> by_id (Suc ?n) d) (docs c)"
    using assms by (rule fresh_ids_no_next, rule fresh_ids_no_Suc_next)
  have rd: "readOne (by_id ?n) ?c1 = Some ?d"
    using no by (simp add: readOne_def find_none_append by_id_def new_message_def)
  have dr: "Messaging_draft now A B t att c = (Some ?d, ?c1)"
    using no by (simp add: Messaging_draft_def createOne_def readOne_def find_none_append by_id_def new_message_def)
  let ?r = "(new_message sender recipient t att)\<lparr>oid := Suc ?n, dateCreated := now', dateUpdated := now',
              received := Some True, timeReceived := Some now', sentMessageID := Some ?n\<rparr>"
  let ?s = "?d\<lparr>draft := None, timeDrafted := None, sent := Some True, timeSent := Some now',
               receivedMessageID := Some (Suc ?n), dateUpdated := now'\<rparr>"
  let ?c2 = "c\<lparr>docs := docs c @ [?s, ?r], next_oid := Suc (Suc ?n)\<rparr>"
  have sn: "Messaging_send now' ?n sender recipient ?c1 = Inr (Some ?s, ?c2)"
    using no rd 
    by (simp add: Messaging_send_def createOne_def partialUpdateOne_def readOne_def
        find_none_append update_first_none_append by_id_def new_message_def)
  have rt: "sendMessage now' A ?n ?c1 = Messaging_send now' ?n A B ?c1"
    using rd by (simp add: sendMessage_def Messaging_read_def assertUserIsSender_def new_message_def)
  have r2: "readOne (by_id (Suc ?n)) ?c2 = Some ?r"
    using no' by (simp add: readOne_def find_none_append by_id_def new_message_def)
  have r1: "readOne (by_id ?n) ?c2 = Some ?s"
    using no by (simp add: readOne_def find_none_append by_id_def new_message_def)
  show ?thesis
    apply (rule exI[of _ ?d], rule exI[of _ ?c1], rule exI[of _ ?s], rule exI[of _ ?r], rule exI[of _ ?c2])
    using dr sn rt r1 r2 by (simp add: new_message_def)
qed

theorem draft_send_roundtrip_witness:
  "fresh_ids (empty_collection :: messages) \<and>
   (\<exists>d c1 s r c2.
           Messaging_draft 5 1 2 ''hi'' None empty_collection = (Some d, c1) \<and> draft d = Some True \<and>
           Messaging_send 7 (oid d) 1 2 c1 = Inr (Some s, c2) \<and>
           sendMessage 7 1 (oid d) c1 = Messaging_send 7 (oid d) 1 2 c1 \<and>
           docs c2 = docs (empty_collection :: messages) @ [s, r] \<and>
           readOne (by_id (oid d)) c2 = Some s \<and> readOne (by_id (oid r)) c2 = Some r \<and>
           oid s = oid d \<and> oid r \<noteq> oid d \<and>
           sent s = Some True \<and> draft s = None \<and> timeDrafted s = None \<and> received s = None \<and>
           received r = Some True \<and> draft r = None \<and> sent r = None \<and>
           message s = ''hi'' \<and> message r = ''hi'' \<and>
           receivedMessageID s = Some (oid r) \<and> sentMessageID r = Some (oid s))"
  using draft_send_roundtrip [OF fresh_ids_empty, of 5 1 2 "''hi''" None 7 1 2] fresh_ids_empty
  by blast

text \<open>The example collection is what the draft and send requests produce.\<close>

lemma example_messages_reached:
  "\<exists>d c1. Messaging_draft 5 10 20 ''hi'' None empty_collection = (Some d, c1) \<and>
     sendMessage 7 10 (oid d) c1 = Inr (Some example_sent, example_messages)"
  by (simp add: Messaging_draft_def sendMessage_def Messaging_send_def Messaging_read_def
      assertUserIsSender_def createOne_def readOne_def partialUpdateOne_def by_id_def
      new_message_def empty_collection_def example_defs)

text \<open>
  C2. \<open>deleteSent\<close> by the sender on the sent copy of the example collection: the claim is
  that both linked copies are removed. The second \<open>deleteOne\<close> filters on the field
  \<open>receivedMessageID\<close>, which only the sender's copy (deleted just before) carries, so the
  recipient's copy stays in the collection. The route \<open>deleteMessage\<close> ends the same way.
\<close>

theorem deleteSent_keeps_received_copy:
  "readOne (by_id 0) example_messages = Some example_sent \<and>
   sent example_sent = Some True \<and> receivedMessageID example_sent = Some 1 \<and>
   readOne (by_id 1) example_messages = Some example_received \<and>
   received example_received = Some True \<and>
   Messaging_deleteSent 10 0 example_messages = Inr \<lparr>docs = [example_received], next_oid = 2\<rparr> \<and>
   deleteMessage 10 0 example_messages = Inr \<lparr>docs = [example_received], next_oid = 2\<rparr>"
  by (simp add: Messaging_deleteSent_def deleteMessage_def assertUserIsSender_def
      assertSenderOrReceiver_def Messaging_read_def
      readOne_def deleteOne_def by_id_def example_defs)

text \<open>
  C4. For a stored message \<open>s\<close> in state sent whose \<open>receivedMessageID\<close> is the id of a stored
  record \<open>r\<close>, \<open>editSent\<close> succeeds and writes the same text and the same attachment on
  both: the supplied ones, or those of \<open>s\<close> where one is omitted. After the call the two
  copies have equal text.
\<close>

theorem editSent_mirrors:
  assumes "readOne (by_id i) c = Some s"
    and "sent s = Some True"
    and "receivedMessageID s = Some rid"
    and "readOne (by_id rid) c = Some r"
  shows "\<exists>s' r' c'.
           Messaging_editSent now i m a c = Inr (Some s', c') \<and>
           readOne (by_id i) c' = Some s' \<and> readOne (by_id rid) c' = Some r' \<and>
           message s' = (case m of Some x \<Rightarrow> x | None \<Rightarrow> message s) \<and>
           attachment s' = (case a of Some x \<Rightarrow> Some x | None \<Rightarrow> attachment s) \<and>
           message r' = message s' \<and> attachment r' = attachment s'"
  using assms
  by (auto simp: Messaging_editSent_def Let_def by_id_Some readOne_partialUpdateOne_by_id)

theorem editSent_mirrors_witness:
  "readOne (by_id 0) example_messages = Some example_sent \<and>
   sent example_sent = Some True \<and> receivedMessageID example_sent = Some 1 \<and>
   readOne (by_id 1) example_messages = Some example_received \<and>
   (\<exists>s' r' c'.
           Messaging_editSent 9 0 (Some ''bye'') None example_messages = Inr (Some s', c') \<and>
           readOne (by_id 0) c' = Some s' \<and> readOne (by_id 1) c' = Some r' \<and>
           message s' = ''bye'' \<and> attachment s' = None \<and>
           message r' = message s' \<and> attachment r' = attachment s')"
proof -
  have h: "readOne (by_id 0) example_messages = Some example_sent"
    "sent example_sent = Some True" "receivedMessageID example_sent = Some 1"
    "readOne (by_id 1) example_messages = Some example_received"
    by (simp_all add: readOne_def by_id_def example_defs)
  show ?thesis
    using h editSent_mirrors [OF h, of 9 "Some ''bye''" None]
    by (simp add: example_sent_def)
qed

text \<open>
  C5. The claim is that \<open>send\<close> and \<open>editDraft\<close> fail with \<open>NotADraftError\<close> on a message that
  is not a draft. Neither operation looks at the message's state: on the sent copy of the
  example collection \<open>send\<close> creates a second received copy and \<open>editDraft\<close> rewrites the
  text. Of the routes, \<open>sendMessage\<close> does check the flag, while \<open>editMessage\<close> passes every
  message that is not sent on to \<open>editDraft\<close>, the received copy included.
\<close>

theorem send_editDraft_accept_non_drafts:
  "draft example_sent \<noteq> Some True \<and> draft example_received \<noteq> Some True \<and>
   (\<exists>x c'. Messaging_send 9 0 10 20 example_messages = Inr (x, c') \<and> length (docs c') = 3) \<and>
   (\<exists>e c'. Messaging_editDraft 9 0 (Some ''bye'') None None example_messages = Inr (Some e, c') \<and>
      oid e = 0 \<and> sent e = Some True \<and> message e = ''bye'') \<and>
   (\<exists>e c'. editMessage 9 99 10 1 None (Some ''bye'') example_messages = Inr (Some e, c') \<and>
      oid e = 1 \<and> received e = Some True \<and> message e = ''bye'') \<and>
   sendMessage 9 10 0 example_messages = Inl (NotADraftError 0)"
  by (simp add: Messaging_send_def Messaging_editDraft_def editMessage_def sendMessage_def
      Messaging_read_def assertUserIsSender_def createOne_def readOne_def partialUpdateOne_def
      by_id_def new_message_def example_defs Let_def)

text \<open>
  C10. For an existing message, \<open>assertSenderOrReceiver\<close> throws (a \<open>UserNotMatchError\<close>, which
  is a \<open>NotAllowedError\<close>) exactly when the acting user is the recipient and not the sender;
  a user who is neither sender nor recipient passes, and the sender always passes.
\<close>

theorem assertSenderOrReceiver_outcomes:
  assumes "readOne (by_id i) c = Some m"
  shows "(u = msg_to m \<and> u \<noteq> msg_from m \<longrightarrow>
            assertSenderOrReceiver u i c = Inl (UserNotMatchError u i)) \<and>
         is_NotAllowed (UserNotMatchError u i) \<and>
         ((\<exists>e. assertSenderOrReceiver u i c = Inl e) \<longrightarrow> u = msg_to m \<and> u \<noteq> msg_from m) \<and>
         (u \<noteq> msg_from m \<and> u \<noteq> msg_to m \<longrightarrow> assertSenderOrReceiver u i c = Inr ()) \<and>
         (u = msg_from m \<longrightarrow> assertSenderOrReceiver u i c = Inr ())"
  using assms by (auto simp: assertSenderOrReceiver_def)

theorem assertSenderOrReceiver_outcomes_witness:
  "readOne (by_id 1) example_messages = Some example_received \<and>
   assertSenderOrReceiver 20 1 example_messages = Inl (UserNotMatchError 20 1) \<and>
   assertSenderOrReceiver 30 1 example_messages = Inr () \<and>
   assertSenderOrReceiver 10 1 example_messages = Inr ()"
proof -
  have h: "readOne (by_id 1) example_messages = Some example_received"
    by (simp add: readOne_def by_id_def example_defs)
  show ?thesis
    using h assertSenderOrReceiver_outcomes [OF h, of 20]
      assertSenderOrReceiver_outcomes [OF h, of 30] assertSenderOrReceiver_outcomes [OF h, of 10]
    by (simp add: example_received_def)
qed

section \<open>Ownership assertions\<close>

text \<open>The example collections are what the create operations produce.\<close>

lemma example_items_reached:
  "Itemizing_create 5 10 ''task'' ''to do'' (Some ''in-progress'') empty_collection =
     (Some example_item, example_items)"
  by (simp add: Itemizing_create_def createOne_def readOne_def by_id_def empty_collection_def
      example_item_def example_items_def)

lemma example_goals_reached:
  "Tracking_create 5 10 ''goal'' 100 None empty_collection = (Some example_goal, example_goals)"
  by (simp add: Tracking_create_def createOne_def readOne_def by_id_def empty_collection_def
      example_goal_def example_goals_def Let_def)

lemma example_profiles_reached:
  "createProfile 5 10 ''Ann'' None None empty_collection = Inr (Some example_profile, example_profiles)"
  by (simp add: createProfile_def assertProfileDoesNotExist_def Profiling_create_def createOne_def
      readOne_def empty_collection_def example_profile_def example_profiles_def)

text \<open>
  C6. Each owner assertion (\<open>assertCreatorIsUser\<close> on items, \<open>assertExecutorIsUser\<close> on
  goals, \<open>assertUserIsSender\<close> on messages), called with a record id and a user: it throws
  \<open>NotFoundError\<close> iff no stored record has that id; it throws a \<open>NotAllowedError\<close> iff the
  record found has another owner, and that error carries the user and the record id; it
  returns normally iff the record found has this owner.
\<close>

theorem owner_assertions:
  "(assertCreatorIsUser i u ci = Inl NotFoundError) = (i \<notin> oid ` set (docs ci)) \<and>
   (\<exists>e. assertCreatorIsUser i u ci = Inl e \<and> is_NotAllowed e) =
     (\<exists>d. readOne (by_id i) ci = Some d \<and> creator d \<noteq> u) \<and>
   ((\<exists>e. assertCreatorIsUser i u ci = Inl e \<and> is_NotAllowed e) \<longrightarrow>
      assertCreatorIsUser i u ci = Inl (ItemCreatorNotMatchError u i)) \<and>
   (assertCreatorIsUser i u ci = Inr ()) =
     (\<exists>d. readOne (by_id i) ci = Some d \<and> creator d = u) \<and>
   (assertExecutorIsUser i u cg = Inl NotFoundError) = (i \<notin> oid ` set (docs cg)) \<and>
   (\<exists>e. assertExecutorIsUser i u cg = Inl e \<and> is_NotAllowed e) =
     (\<exists>d. readOne (by_id i) cg = Some d \<and> executor d \<noteq> u) \<and>
   ((\<exists>e. assertExecutorIsUser i u cg = Inl e \<and> is_NotAllowed e) \<longrightarrow>
      assertExecutorIsUser i u cg = Inl (GoalExecutorNotMatchError u i)) \<and>
   (assertExecutorIsUser i u cg = Inr ()) =
     (\<exists>d. readOne (by_id i) cg = Some d \<and> executor d = u) \<and>
   (assertUserIsSender u i cm = Inl NotFoundError) = (i \<notin> oid ` set (docs cm)) \<and>
   (\<exists>e. assertUserIsSender u i cm = Inl e \<and> is_NotAllowed e) =
     (\<exists>d. readOne (by_id i) cm = Some d \<and> msg_from d \<noteq> u) \<and>
   ((\<exists>e. assertUserIsSender u i cm = Inl e \<and> is_NotAllowed e) \<longrightarrow>
      assertUserIsSender u i cm = Inl (UserNotSenderError u i)) \<and>
   (assertUserIsSender u i cm = Inr ()) =
     (\<exists>d. readOne (by_id i) cm = Some d \<and> msg_from d = u)"
proof -
  have items: "(assertCreatorIsUser i u ci = Inl NotFoundError) = (i \<notin> oid ` set (docs ci))"
    "(\<exists>e. assertCreatorIsUser i u ci = Inl e \<and> is_NotAllowed e) =
       (\<exists>d. readOne (by_id i) ci = Some d \<and> creator d \<noteq> u)"
    "(\<exists>e. assertCreatorIsUser i u ci = Inl e \<and> is_NotAllowed e) \<longrightarrow>
      assertCreatorIsUser i u ci = Inl (ItemCreatorNotMatchError u i)"
    "(assertCreatorIsUser i u ci = Inr ()) =
       (\<exists>d. readOne (by_id i) ci = Some d \<and> creator d = u)"
    by (auto simp: assertCreatorIsUser_def readOne_by_id_None [symmetric] split: option.splits)
  have goals: "(assertExecutorIsUser i u cg = Inl NotFoundError) = (i \<notin> oid ` set (docs cg))"
    "(\<exists>e. assertExecutorIsUser i u cg = Inl e \<and> is_NotAllowed e) =
       (\<exists>d. readOne (by_id i) cg = Some d \<and> executor d \<noteq> u)"
    "(\<exists>e. assertExecutorIsUser i u cg = Inl e \<and> is_NotAllowed e) \<longrightarrow>
      assertExecutorIsUser i u cg = Inl (GoalExecutorNotMatchError u i)"
    "(assertExecutorIsUser i u cg = Inr ()) =
       (\<exists>d. readOne (by_id i) cg = Some d \<and> executor d = u)"
    by (auto simp: assertExecutorIsUser_def readOne_by_id_None [symmetric] split: option.splits)
  have msgs: "(assertUserIsSender u i cm = Inl NotFoundError) = (i \<notin> oid ` set (docs cm))"
    "(\<exists>e. assertUserIsSender u i cm = Inl e \<and> is_NotAllowed e) =
       (\<exists>d. readOne (by_id i) cm = Some d \<and> msg_from d \<noteq> u)"
    "(\<exists>e. assertUserIsSender u i cm = Inl e \<and> is_NotAllowed e) \<longrightarrow>
      assertUserIsSender u i cm = Inl (UserNotSenderError u i)"
    "(assertUserIsSender u i cm = Inr ()) =
       (\<exists>d. readOne (by_id i) cm = Some d \<and> msg_from d = u)"
    by (auto simp: assertUserIsSender_def readOne_by_id_None [symmetric] split: option.splits)
  from items goals msgs show ?thesis by blast
qed

theorem owner_assertions_witness:
  "assertCreatorIsUser 0 10 example_items = Inr () \<and>
   assertCreatorIsUser 0 11 example_items = Inl (ItemCreatorNotMatchError 11 0) \<and>
   assertCreatorIsUser 7 10 example_items = Inl NotFoundError \<and>
   assertExecutorIsUser 0 10 example_goals = Inr () \<and>
   assertExecutorIsUser 0 11 example_goals = Inl (GoalExecutorNotMatchError 11 0) \<and>
   assertExecutorIsUser 7 10 example_goals = Inl NotFoundError \<and>
   assertUserIsSender 10 0 example_messages = Inr () \<and>
   assertUserIsSender 11 0 example_messages = Inl (UserNotSenderError 11 0) \<and>
   assertUserIsSender 10 7 example_messages = Inl NotFoundError"
  using owner_assertions [of 0 10 example_items example_goals example_messages]
    owner_assertions [of 0 11 example_items example_goals example_messages]
    owner_assertions [of 7 10 example_items example_goals example_messages]
  by (simp add: readOne_def by_id_def example_defs)

section \<open>Updates with nothing supplied\<close>

text \<open>
  C7. For an existing record, the update operation of its concept (\<open>Itemizing.update\<close>,
  \<open>Tracking.edit\<close>, \<open>Profiling.update\<close>, the last keyed by the user) with every optional
  field omitted succeeds and returns the record as it was, except for the update
  timestamp that the store sets; that record is what is stored afterwards, and no record
  of the collection differs from before in anything but that timestamp.
\<close>

theorem update_with_all_fields_omitted:
  "(readOne (by_id i) ci = Some item \<longrightarrow>
      (\<exists>ci'. Itemizing_update now i None None None ci = Inr (Some (item\<lparr>dateUpdated := now\<rparr>), ci') \<and>
         readOne (by_id i) ci' = Some (item\<lparr>dateUpdated := now\<rparr>) \<and>
         (\<forall>j. j \<noteq> i \<longrightarrow> readOne (by_id j) ci' = readOne (by_id j) ci) \<and>
         map (\<lambda>d. d\<lparr>dateUpdated := 0\<rparr>) (docs ci') = map (\<lambda>d. d\<lparr>dateUpdated := 0\<rparr>) (docs ci))) \<and>
   (readOne (by_id i) cg = Some goal \<longrightarrow>
      (\<exists>cg'. Tracking_edit now i None None None None cg = Inr (Some (goal\<lparr>dateUpdated := now\<rparr>), cg') \<and>
         readOne (by_id i) cg' = Some (goal\<lparr>dateUpdated := now\<rparr>) \<and>
         (\<forall>j. j \<noteq> i \<longrightarrow> readOne (by_id j) cg' = readOne (by_id j) cg) \<and>
         map (\<lambda>d. d\<lparr>dateUpdated := 0\<rparr>) (docs cg') = map (\<lambda>d. d\<lparr>dateUpdated := 0\<rparr>) (docs cg))) \<and>
   (viewProfile u cp = Some profile \<longrightarrow>
      (\<exists>cp'. Profiling_update now u None None None cp = Inr (Some (profile\<lparr>dateUpdated := now\<rparr>), cp') \<and>
         viewProfile u cp' = Some (profile\<lparr>dateUpdated := now\<rparr>) \<and>
         (\<forall>v. v \<noteq> u \<longrightarrow> viewProfile v cp' = viewProfile v cp) \<and>
         map (\<lambda>d. d\<lparr>dateUpdated := 0\<rparr>) (docs cp') = map (\<lambda>d. d\<lparr>dateUpdated := 0\<rparr>) (docs cp)))"
proof (intro conjI impI)
  assume h: "readOne (by_id i) ci = Some item"
  let ?c = "partialUpdateOne now (by_id i) (\<lambda>r. r) ci"
  have "update_first (by_id i)
          (\<lambda>d. d\<lparr>item_title := item_title item, item_description := item_description item,
                  item_status := item_status item, dateUpdated := now\<rparr>) (docs ci) =
        update_first (by_id i) (\<lambda>d. d\<lparr>dateUpdated := now\<rparr>) (docs ci)"
    using h unfolding readOne_def by (rule update_first_found_cong) simp
  then have 1: "Itemizing_update now i None None None ci = Inr (readOne (by_id i) ?c, ?c)"
    using h by (simp add: Itemizing_update_def partialUpdateOne_def Let_def)
  have 2: "readOne (by_id i) ?c = Some (item\<lparr>dateUpdated := now\<rparr>)"
    using h by (simp add: readOne_partialUpdateOne_by_id)
  have 3: "\<forall>j. j \<noteq> i \<longrightarrow> readOne (by_id j) ?c = readOne (by_id j) ci"
    by (simp add: readOne_partialUpdateOne_by_id)
  have 4: "map (\<lambda>d. d\<lparr>dateUpdated := 0\<rparr>) (docs ?c) = map (\<lambda>d. d\<lparr>dateUpdated := 0\<rparr>) (docs ci)"
    by (simp add: partialUpdateOne_def map_update_first)
  show "\<exists>ci'. Itemizing_update now i None None None ci = Inr (Some (item\<lparr>dateUpdated := now\<rparr>), ci') \<and>
         readOne (by_id i) ci' = Some (item\<lparr>dateUpdated := now\<rparr>) \<and>
         (\<forall>j. j \<noteq> i \<longrightarrow> readOne (by_id j) ci' = readOne (by_id j) ci) \<and>
         map (\<lambda>d. d\<lparr>dateUpdated := 0\<rparr>) (docs ci') = map (\<lambda>d. d\<lparr>dateUpdated := 0\<rparr>) (docs ci)"
    using 1 2 3 4 by (intro exI[of _ ?c]) simp
next
  assume h: "readOne (by_id i) cg = Some goal"
  let ?c = "partialUpdateOne now (by_id i) (\<lambda>r. r) cg"
  have "update_first (by_id i)
          (\<lambda>d. d\<lparr>goal_title := goal_title goal, goal_description := goal_description goal,
                  goal_status := goal_status goal, due := due goal, dateUpdated := now\<rparr>) (docs cg) =
        update_first (by_id i) (\<lambda>d. d\<lparr>dateUpdated := now\<rparr>) (docs cg)"
    using h unfolding readOne_def by (rule update_first_found_cong) simp
  then have 1: "Tracking_edit now i None None None None cg = Inr (readOne (by_id i) ?c, ?c)"
    using h by (simp add: Tracking_edit_def partialUpdateOne_def Let_def)
  have 2: "readOne (by_id i) ?c = Some (goal\<lparr>dateUpdated := now\<rparr>)"
    using h by (simp add: readOne_partialUpdateOne_by_id)
  have 3: "\<forall>j. j \<noteq> i \<longrightarrow> readOne (by_id j) ?c = readOne (by_id j) cg"
    by (simp add: readOne_partialUpdateOne_by_id)
  have 4: "map (\<lambda>d. d\<lparr>dateUpdated := 0\<rparr>) (docs ?c) = map (\<lambda>d. d\<lparr>dateUpdated := 0\<rparr>) (docs cg)"
    by (simp add: partialUpdateOne_def map_update_first)
  show "\<exists>cg'. Tracking_edit now i None None None None cg = Inr (Some (goal\<lparr>dateUpdated := now\<rparr>), cg') \<and>
         readOne (by_id i) cg' = Some (goal\<lparr>dateUpdated := now\<rparr>) \<and>
         (\<forall>j. j \<noteq> i \<longrightarrow> readOne (by_id j) cg' = readOne (by_id j) cg) \<and>
         map (\<lambda>d. d\<lparr>dateUpdated := 0\<rparr>) (docs cg') = map (\<lambda>d. d\<lparr>dateUpdated := 0\<rparr>) (docs cg)"
    using 1 2 3 4 by (intro exI[of _ ?c]) simp
next
  assume h: "viewProfile u cp = Some profile"
  let ?c = "partialUpdateOne now (\<lambda>d. user d = u) (\<lambda>r. r) cp"
  have "update_first (\<lambda>d. user d = u)
          (\<lambda>d. d\<lparr>name := name profile, contact := contact profile, bio := bio profile,
                  dateUpdated := now\<rparr>) (docs cp) =
        update_first (\<lambda>d. user d = u) (\<lambda>d. d\<lparr>dateUpdated := now\<rparr>) (docs cp)"
    using h unfolding viewProfile_def readOne_def by (rule update_first_found_cong) simp
  then have 1: "Profiling_update now u None None None cp = Inr (viewProfile u ?c, ?c)"
    using h by (simp add: Profiling_update_def viewProfile_def partialUpdateOne_def Let_def)
  have 2: "viewProfile u ?c = Some (profile\<lparr>dateUpdated := now\<rparr>)"
    using h by (simp add: viewProfile_def readOne_def partialUpdateOne_def find_update_first_same)
  have 3: "\<forall>v. v \<noteq> u \<longrightarrow> viewProfile v ?c = viewProfile v cp"
    by (simp add: viewProfile_def readOne_def partialUpdateOne_def find_update_first_other)
  have 4: "map (\<lambda>d. d\<lparr>dateUpdated := 0\<rparr>) (docs ?c) = map (\<lambda>d. d\<lparr>dateUpdated := 0\<rparr>) (docs cp)"
    by (simp add: partialUpdateOne_def map_update_first)
  show "\<exists>cp'. Profiling_update now u None None None cp = Inr (Some (profile\<lparr>dateUpdated := now\<rparr>), cp') \<and>
         viewProfile u cp' = Some (profile\<lparr>dateUpdated := now\<rparr>) \<and>
         (\<forall>v. v \<noteq> u \<longrightarrow> viewProfile v cp' = viewProfile v cp) \<and>
         map (\<lambda>d. d\<lparr>dateUpdated := 0\<rparr>) (docs cp') = map (\<lambda>d. d\<lparr>dateUpdated := 0\<rparr>) (docs cp)"
    using 1 2 3 4 by (intro exI[of _ ?c]) simp
qed

theorem update_with_all_fields_omitted_witness:
  "readOne (by_id 0) example_items = Some example_item \<and>
   readOne (by_id 0) example_goals = Some example_goal \<and>
   viewProfile 10 example_profiles = Some example_profile \<and>
   (\<exists>ci'. Itemizing_update 9 0 None None None example_items =
            Inr (Some (example_item\<lparr>dateUpdated := 9\<rparr>), ci')) \<and>
   (\<exists>cg'. Tracking_edit 9 0 None None None None example_goals =
            Inr (Some (example_goal\<lparr>dateUpdated := 9\<rparr>), cg')) \<and>
   (\<exists>cp'. Profiling_update 9 10 None None None example_profiles =
            Inr (Some (example_profile\<lparr>dateUpdated := 9\<rparr>), cp'))"
proof -
  have h: "readOne (by_id 0) example_items = Some example_item"
    "readOne (by_id 0) example_goals = Some example_goal"
    "viewProfile 10 example_profiles = Some example_profile"
    by (simp_all add: viewProfile_def readOne_def by_id_def example_defs)
  show ?thesis
    using h update_with_all_fields_omitted
      [of 0 example_items example_item 9 example_goals example_goal 10 example_profiles
          example_profile]
    by blast
qed

section \<open>Item status validation\<close>

text \<open>
  C8. The claim is that \<open>assertValidStatus\<close> throws for every status string outside
  \<open>STATUS_TYPES\<close> and returns for \<open>undefined\<close>. It returns for \<open>undefined\<close> and throws for
  \<open>''done''\<close>, but the guard \<open>status && ...\<close> also lets the empty string through, which is
  not in \<open>STATUS_TYPES\<close>; \<open>Itemizing.update\<close> treats only \<open>undefined\<close> as omitted, so the
  route \<open>updateTask\<close> then stores the empty string as the item's status.
\<close>

theorem assertValidStatus_accepts_empty_string:
  "'''' \<notin> set STATUS_TYPES \<and> assertValidStatus (Some '''') = Inr () \<and>
   assertValidStatus (Some ''done'') = Inl (InvalidStatusError ''done'') \<and>
   assertValidStatus None = Inr () \<and>
   updateTask 9 10 0 None None (Some '''') example_items =
     Inr (Some (example_item\<lparr>item_status := Some '''', dateUpdated := 9\<rparr>),
          \<lparr>docs = [example_item\<lparr>item_status := Some '''', dateUpdated := 9\<rparr>], next_oid = 1\<rparr>)"
  by (simp add: assertValidStatus_def STATUS_TYPES_def updateTask_def assertCreatorIsUser_def
      Itemizing_update_def partialUpdateOne_def readOne_def by_id_def Let_def
      example_items_def example_item_def)

section \<open>One profile per user\<close>

lemma createProfile_InrD:
  assumes "createProfile now u n co b c = Inr (p, c')"
  shows "filter (\<lambda>d. user d = u) (docs c) = []"
    and "docs c' = docs c @ [\<lparr>oid = next_oid c, dateCreated = now, dateUpdated = now,
                                user = u, name = n, contact = co, bio = b\<rparr>]"
    and "next_oid c' = Suc (next_oid c)"
    and "p = Some \<lparr>oid = next_oid c, dateCreated = now, dateUpdated = now,
                                user = u, name = n, contact = co, bio = b\<rparr>"
  using assms
  by (auto simp: createProfile_def assertProfileDoesNotExist_def Profiling_create_def createOne_def
      readOne_def find_None_filter [symmetric] find_append split: option.splits)

lemma reachable_at_most_one:
  "reachable c \<Longrightarrow> length (profiles_of v c) \<le> 1"
proof (induction arbitrary: v rule: reachable.induct)
  case reach_empty
  show ?case by (simp add: profiles_of_def empty_collection_def)
next
  case (reach_create c now u n co b p c')
  from createProfile_InrD(1,2) [OF reach_create.hyps(2)] reach_create.IH [of v]
  show ?case by (cases "v = u") (auto simp: profiles_of_def)
next
  case (reach_delete c u c')
  from reach_delete.hyps(2) have "docs c' = delete_first (\<lambda>d. user d = u) (docs c)"
    by (auto simp: deleteProfile_def Profiling_delete_def deleteOne_def split: sum.splits)
  with reach_delete.IH [of v] show ?case
    using length_filter_delete_first [of "\<lambda>d. user d = v" "\<lambda>d. user d = u" "docs c"]
    by (simp add: profiles_of_def)
next
  case (reach_update c now u n co b p c')
  from reach_update.hyps(2) obtain f where "docs c' = update_first (\<lambda>d. user d = u) f (docs c)"
    and "\<forall>d. user (f d) = user d"
    by (auto simp: updateProfile_def Profiling_update_def partialUpdateOne_def Let_def
        split: sum.splits option.splits)
  with reach_update.IH [of v] show ?case
    by (simp add: profiles_of_def length_filter_update_first)
qed

text \<open>
  C9. Once \<open>createProfile\<close> has succeeded for user \<open>u\<close>, the collection holds exactly one
  profile of \<open>u\<close>, a second \<open>createProfile\<close> for \<open>u\<close> fails with \<open>UserProfileExistsError\<close>
  (leaving the collection as it is), and after \<open>deleteProfile\<close> for \<open>u\<close> a \<open>createProfile\<close>
  for \<open>u\<close> succeeds again. Every collection that the profile routes produce from the empty
  one, request after request, holds at most one profile per user.
\<close>

theorem one_profile_per_user:
  "(reachable c \<longrightarrow> length (profiles_of v c) \<le> 1) \<and>
   (createProfile now u n co b c0 = Inr (p, c1) \<longrightarrow>
      length (profiles_of u c1) = 1 \<and>
      createProfile now2 u n2 co2 b2 c1 = Inl (UserProfileExistsError u) \<and>
      (\<exists>c2. deleteProfile u c1 = Inr c2 \<and> profiles_of u c2 = [] \<and>
         (\<exists>p3 c3. createProfile now3 u n3 co3 b3 c2 = Inr (Some p3, c3) \<and>
            user p3 = u \<and> name p3 = n3 \<and> length (profiles_of u c3) = 1)))"
proof (intro conjI impI)
  assume "reachable c"
  then show "length (profiles_of v c) \<le> 1" by (rule reachable_at_most_one)
next
  assume h: "createProfile now u n co b c0 = Inr (p, c1)"
  let ?new = "\<lparr>oid = next_oid c0, dateCreated = now, dateUpdated = now,
               user = u, name = n, contact = co, bio = b\<rparr>"
  note d = createProfile_InrD [OF h]
  have none: "list_all (\<lambda>x. \<not> user x = u) (docs c0)"
    using d(1) by (simp add: find_None_filter [symmetric] find_None_list_all)
  show "length (profiles_of u c1) = 1"
    using d(1,2) by (simp add: profiles_of_def)
  have found: "readOne (\<lambda>d. user d = u) c1 = Some ?new"
    using d(2) none by (simp add: readOne_def find_none_append)
  show "createProfile now2 u n2 co2 b2 c1 = Inl (UserProfileExistsError u)"
    using found by (simp add: createProfile_def assertProfileDoesNotExist_def)
  let ?c2 = "c1\<lparr>docs := docs c0\<rparr>"
  have del: "deleteProfile u c1 = Inr ?c2"
    using found d(2) none
    by (simp add: deleteProfile_def assertProfileExists_def Profiling_delete_def deleteOne_def
        delete_first_none)
  have empty: "profiles_of u ?c2 = []"
    using d(1) by (simp add: profiles_of_def)
  let ?p3 = "\<lparr>oid = next_oid c1, dateCreated = now3, dateUpdated = now3,
               user = u, name = n3, contact = co3, bio = b3\<rparr>"
  let ?c3 = "c1\<lparr>docs := docs c0 @ [?p3], next_oid := Suc (next_oid c1)\<rparr>"
  have fnone: "find (\<lambda>d. user d = u) (docs c0) = None"
    using d(1) by (simp add: find_None_filter)
  have again: "createProfile now3 u n3 co3 b3 ?c2 = Inr (Some ?p3, ?c3)"
    using none fnone
    by (simp add: createProfile_def assertProfileDoesNotExist_def Profiling_create_def
        createOne_def readOne_def find_none_append)
  have one: "length (profiles_of u ?c3) = 1"
    using d(1) by (simp add: profiles_of_def)
  show "\<exists>c2. deleteProfile u c1 = Inr c2 \<and> profiles_of u c2 = [] \<and>
         (\<exists>p3 c3. createProfile now3 u n3 co3 b3 c2 = Inr (Some p3, c3) \<and>
            user p3 = u \<and> name p3 = n3 \<and> length (profiles_of u c3) = 1)"
    using del empty again one by (intro exI[of _ ?c2] conjI exI[of _ ?p3] exI[of _ ?c3]) simp_all
qed

theorem one_profile_per_user_witness:
  "reachable example_profiles \<and> length (profiles_of 10 example_profiles) \<le> 1 \<and>
   createProfile 5 10 ''Ann'' None None empty_collection = Inr (Some example_profile, example_profiles) \<and>
   createProfile 6 10 ''Ann'' None None example_profiles = Inl (UserProfileExistsError 10) \<and>
   (\<exists>c2. deleteProfile 10 example_profiles = Inr c2 \<and> profiles_of 10 c2 = [] \<and>
      (\<exists>p3 c3. createProfile 7 10 ''Ann'' None None c2 = Inr (Some p3, c3) \<and>
            user p3 = 10 \<and> name p3 = ''Ann'' \<and> length (profiles_of 10 c3) = 1))"
proof -
  have r: "reachable example_profiles"
    using reach_create [OF reach_empty example_profiles_reached] .
  show ?thesis
    using r example_profiles_reached
      one_profile_per_user [of example_profiles 10 5 10 "''Ann''" None None empty_collection
        "Some example_profile" example_profiles 6 "''Ann''" None None 7 "''Ann''" None None]
    by blast
qed

section \<open>Goal status\<close>

lemma sweep_keeps_past_due:
  assumes "readOne (by_id i) c = Some g1" and "goal_status g1 = ''past due''"
    and "dateUpdated g1 = now"
  shows "readOne (by_id i) (sweep now gs c) = Some g1"
  using assms(1)
proof (induction gs arbitrary: c)
  case Nil
  then show ?case by simp
next
  case (Cons x rest)
  have same: "g1\<lparr>goal_status := ''past due'', dateUpdated := now\<rparr> = g1"
    using assms(2,3) by (cases g1) simp
  have "readOne (by_id i)
          (if due x < now
           then partialUpdateOne now (by_id (oid x)) (\<lambda>r. r\<lparr>goal_status := ''past due''\<rparr>) c
           else c) = Some g1"
    using Cons.prems same by (simp add: readOne_partialUpdateOne_by_id)
  then show ?case using Cons.IH by simp
qed

lemma sweep_marks_past_due:
  assumes "due g < now"
  shows "readOne (by_id i) c = Some g \<Longrightarrow> g \<in> set gs \<Longrightarrow>
         readOne (by_id i) (sweep now gs c) = Some (g\<lparr>goal_status := ''past due'', dateUpdated := now\<rparr>)"
proof (induction gs arbitrary: c)
  case Nil
  then show ?case by simp
next
  case (Cons x rest)
  let ?c' = "if due x < now
             then partialUpdateOne now (by_id (oid x)) (\<lambda>r. r\<lparr>goal_status := ''past due''\<rparr>) c
             else c"
  have oid_g: "oid g = i"
    using readOne_SomeD [OF Cons.prems(1)] by (simp add: by_id_def)
  show ?case
  proof (cases "oid x = i \<and> due x < now")
    case True
    then have "readOne (by_id i) ?c' = Some (g\<lparr>goal_status := ''past due'', dateUpdated := now\<rparr>)"
      using Cons.prems(1) by (simp add: readOne_partialUpdateOne_by_id)
    then have "readOne (by_id i) (sweep now rest ?c') =
                 Some (g\<lparr>goal_status := ''past due'', dateUpdated := now\<rparr>)"
      by (rule sweep_keeps_past_due) simp_all
    then show ?thesis by simp
  next
    case False
    then have keep: "readOne (by_id i) ?c' = Some g"
      using Cons.prems(1) by (auto simp: readOne_partialUpdateOne_by_id)
    from False oid_g assms have "x \<noteq> g" by auto
    with Cons.prems(2) have "g \<in> set rest" by simp
    from Cons.IH [OF keep this] show ?thesis by simp
  qed
qed

lemma updateGoalStatuses_marks_past_due:
  assumes "readOne (by_id i) c = Some g" and "goal_status g = ''pending''" and "due g < now"
  shows "readOne (by_id i) (updateGoalStatuses now c) =
           Some (g\<lparr>goal_status := ''past due'', dateUpdated := now\<rparr>)"
proof -
  have "g \<in> set (readMany (\<lambda>d. goal_status d = ''pending'') c)"
    using readOne_SomeD [OF assms(1)] assms(2) by (simp add: readMany_def)
  with assms(1,3) show ?thesis
    by (simp add: updateGoalStatuses_def Let_def sweep_marks_past_due)
qed

text \<open>
  C3. \<open>Tracking.create\<close> stores the goal with status \<open>''past due''\<close> when the due date is
  earlier than the current time and \<open>''pending''\<close> otherwise. A goal created pending is
  \<open>''past due''\<close> after an \<open>updateGoalStatuses\<close> sweep run at a time later than its due date;
  more generally the sweep does this to every stored goal that is pending and due before
  the time of the sweep.
\<close>

theorem goal_status_past_due:
  "(fresh_ids c \<longrightarrow>
      (\<exists>g c1. Tracking_create now ex t du de c = (Some g, c1) \<and>
         readOne (by_id (oid g)) c1 = Some g \<and> due g = du \<and>
         goal_status g = (if du < now then ''past due'' else ''pending'') \<and>
         (\<not> du < now \<and> du < now' \<longrightarrow>
            (\<exists>g'. readOne (by_id (oid g)) (updateGoalStatuses now' c1) = Some g' \<and>
               goal_status g' = ''past due'')))) \<and>
   (readOne (by_id i) c = Some g0 \<and> goal_status g0 = ''pending'' \<and> due g0 < now' \<longrightarrow>
      readOne (by_id i) (updateGoalStatuses now' c) =
        Some (g0\<lparr>goal_status := ''past due'', dateUpdated := now'\<rparr>))"
proof (intro conjI impI)
  assume f: "fresh_ids c"
  let ?g = "\<lparr>oid = next_oid c, dateCreated = now, dateUpdated = now,
             executor = ex, goal_title = t, goal_description = de,
             goal_status = (if du < now then ''past due'' else ''pending''), due = du\<rparr>"
  let ?c1 = "c\<lparr>docs := docs c @ [?g], next_oid := Suc (next_oid c)\<rparr>"
  have rd: "readOne (by_id (next_oid c)) ?c1 = Some ?g"
    using fresh_ids_no_next [OF f] by (simp add: readOne_def find_none_append by_id_def)
  have cr: "Tracking_create now ex t du de c = (Some ?g, ?c1)"
    using fresh_ids_no_next [OF f]
    by (simp add: Tracking_create_def createOne_def Let_def readOne_def find_none_append by_id_def)
  have sw: "\<not> du < now \<and> du < now' \<longrightarrow>
            (\<exists>g'. readOne (by_id (oid ?g)) (updateGoalStatuses now' ?c1) = Some g' \<and>
               goal_status g' = ''past due'')"
  proof
    assume a: "\<not> du < now \<and> du < now'"
    have "readOne (by_id (next_oid c)) (updateGoalStatuses now' ?c1) =
            Some (?g\<lparr>goal_status := ''past due'', dateUpdated := now'\<rparr>)"
      using rd a by (intro updateGoalStatuses_marks_past_due) simp_all
    then show "\<exists>g'. readOne (by_id (oid ?g)) (updateGoalStatuses now' ?c1) = Some g' \<and>
               goal_status g' = ''past due''"
      by simp
  qed
  show "\<exists>g c1. Tracking_create now ex t du de c = (Some g, c1) \<and>
         readOne (by_id (oid g)) c1 = Some g \<and> due g = du \<and>
         goal_status g = (if du < now then ''past due'' else ''pending'') \<and>
         (\<not> du < now \<and> du < now' \<longrightarrow>
            (\<exists>g'. readOne (by_id (oid g)) (updateGoalStatuses now' c1) = Some g' \<and>
               goal_status g' = ''past due''))"
    using cr rd sw by (intro exI[of _ ?g] exI[of _ ?c1]) simp
next
  assume "readOne (by_id i) c = Some g0 \<and> goal_status g0 = ''pending'' \<and> due g0 < now'"
  then show "readOne (by_id i) (updateGoalStatuses now' c) =
        Some (g0\<lparr>goal_status := ''past due'', dateUpdated := now'\<rparr>)"
    by (simp add: updateGoalStatuses_marks_past_due)
qed

theorem goal_status_past_due_witness:
  "fresh_ids (empty_collection :: goals) \<and>
   Tracking_create 5 10 ''goal'' 100 None empty_collection = (Some example_goal, example_goals) \<and>
   goal_status example_goal = ''pending'' \<and>
   readOne (by_id 0) example_goals = Some example_goal \<and> due example_goal < 200 \<and>
   readOne (by_id 0) (updateGoalStatuses 200 example_goals) =
     Some (example_goal\<lparr>goal_status := ''past due'', dateUpdated := 200\<rparr>) \<and>
   (\<exists>g c1. Tracking_create 5 10 ''goal'' 3 None empty_collection = (Some g, c1) \<and>
      goal_status g = ''past due'')"
proof -
  have f: "fresh_ids (empty_collection :: goals)"
    by (rule fresh_ids_empty)
  have h: "readOne (by_id 0) example_goals = Some example_goal \<and>
           goal_status example_goal = ''pending'' \<and> due example_goal < 200"
    by (simp add: readOne_def by_id_def example_goals_def example_goal_def)
  have a: "\<exists>g c1. Tracking_create 5 10 ''goal'' 3 None empty_collection = (Some g, c1) \<and>
      goal_status g = ''past due''"
    using f goal_status_past_due [of empty_collection 5 10 "''goal''" 3 None 200 0 example_goal]
    by fastforce
  have b: "readOne (by_id 0) (updateGoalStatuses 200 example_goals) =
     Some (example_goal\<lparr>goal_status := ''past due'', dateUpdated := 200\<rparr>)"
    using h goal_status_past_due [of example_goals 5 10 "''goal''" 100 None 200 0 example_goal]
    by blast
  show ?thesis using f h a b example_goals_reached by simp
qed

end
